theory Spec2Isabelle
  imports Complex_Main
begin

section \<open>The census-income MMoE demo: command line and evaluation harness\<close>

text \<open>
  The development follows \<^verbatim>\<open>census_income_demo.py\<close>. Python exceptions are values of
  \<open>error\<close>; a function that can raise returns \<open>error + 'a\<close>, with \<open>Inl\<close> for the
  exception. Python floats are modelled by exact reals: rounding of the float
  arithmetic is not part of the model. External calls (Keras \<^verbatim>\<open>fit\<close>,
  \<^verbatim>\<open>evaluate\<close>, the profiler, \<^verbatim>\<open>print\<close>) are recorded as events of a trace, in
  the order in which the program issues them, and are taken to return.
\<close>

datatype error = ZeroDivisionError | ValueError | IndexError | ShapeMismatch | FileNotFoundError

subsection \<open>Arguments of \<^verbatim>\<open>main\<close>\<close>

text \<open>The namespace returned by \<^verbatim>\<open>parser.parse_args()\<close>, one field per \<^verbatim>\<open>add_argument\<close>.\<close>

record args =
  train :: bool
  evaluate :: string
  predict :: bool
  profile :: bool
  tensorboard :: bool
  batch_size :: int
  precision :: string
  epochs :: int
  num_iter :: int
  num_warmup :: int

text \<open>The defaults of the \<^verbatim>\<open>add_argument\<close> calls: the namespace of a run without options.\<close>

definition default_args :: args where
  "default_args =
     \<lparr>train = False, evaluate = ''True'', predict = False, profile = False,
      tensorboard = False, batch_size = 1, precision = ''float32'', epochs = 10,
      num_iter = 200, num_warmup = 3\<rparr>"

subsection \<open>Events\<close>

datatype ('x, 'y) event =
    Fit 'x 'y 'x 'y nat
      \<comment> \<open>\<^verbatim>\<open>model.fit(x, y, validation_data=(vx, vy), epochs)\<close>\<close>
  | Set_global_policy string
  | Print string
  | Profiler_start
  | Profiler_stop
  | Evaluate 'x 'y int int
      \<comment> \<open>\<^verbatim>\<open>model.evaluate(test_data, test_label, steps, batch_size)\<close>\<close>
  | Print_iteration int real
  | Print_value real
  | Print_latency real
  | Print_throughput real

subsection \<open>Python primitives\<close>

text \<open>\<^verbatim>\<open>int(x)\<close> of a float truncates towards zero.\<close>

definition py_int :: "real \<Rightarrow> int" where
  "py_int x = (if 0 \<le> x then \<lfloor>x\<rfloor> else \<lceil>x\<rceil>)"

text \<open>\<^verbatim>\<open>range(n)\<close>: the indices \<open>0, \<dots>, n - 1\<close>, none when \<open>n \<le> 0\<close>.\<close>

definition py_range :: "int \<Rightarrow> int list" where
  "py_range n = map int [0..<nat n]"

subsection \<open>The evaluation harness (lines 259 to 285 of \<^verbatim>\<open>main\<close>)\<close>

text \<open>
  \<^verbatim>\<open>num_iter = int(len(test_data) / args.batch_size)\<close> followed by
  \<^verbatim>\<open>num_iter = min(num_iter, args.num_iter)\<close>. The true division raises
  \<^verbatim>\<open>ZeroDivisionError\<close> for a batch size of zero.
\<close>

definition iteration_count :: "args \<Rightarrow> nat \<Rightarrow> error + int" where
  "iteration_count a len_test =
     (if batch_size a = 0 then Inl ZeroDivisionError
      else Inr (min (py_int (real len_test / real_of_int (batch_size a))) (num_iter a)))"

record ('x, 'y) harness_state =
  total_time :: real
  total_sample :: int
  out :: "('x, 'y) event list"

text \<open>
  One pass of the body of \<^verbatim>\<open>for i in range(args.epochs)\<close>. The measured duration
  \<^verbatim>\<open>end_time - start_time\<close> of repetition \<open>i\<close> is \<open>dur i\<close>, given by the environment.
\<close>

definition repetition ::
  "args \<Rightarrow> 'x \<Rightarrow> 'y \<Rightarrow> int \<Rightarrow> (int \<Rightarrow> real) \<Rightarrow> int \<Rightarrow>
   ('x, 'y) harness_state \<Rightarrow> ('x, 'y) harness_state" where
  "repetition a test_data test_label n dur i s =
     (let collect = (tensorboard a \<and> i = epochs a div 2);
          s1 = (if collect
                then s\<lparr>out := out s @ [Print ''---- collect tensorboard'', Profiler_start]\<rparr>
                else s);
          s2 = s1\<lparr>out := out s1 @
                 [Evaluate test_data test_label n (batch_size a), Print_iteration i (dur i)]\<rparr>;
          s3 = (if i > num_warmup a
                then s2\<lparr>total_time := total_time s2 + dur i,
                        total_sample := total_sample s2 + n * batch_size a\<rparr>
                else s2)
      in (if collect
          then s3\<lparr>out := out s3 @ [Profiler_stop, Print ''---- collect tensorboard end'']\<rparr>
          else s3))"

primrec harness_loop ::
  "args \<Rightarrow> 'x \<Rightarrow> 'y \<Rightarrow> int \<Rightarrow> (int \<Rightarrow> real) \<Rightarrow> int list \<Rightarrow>
   ('x, 'y) harness_state \<Rightarrow> ('x, 'y) harness_state" where
  "harness_loop a test_data test_label n dur [] s = s"
| "harness_loop a test_data test_label n dur (i # rest) s =
     harness_loop a test_data test_label n dur rest
       (repetition a test_data test_label n dur i s)"

text \<open>
  The harness: the iteration count, the loop, then the two divisions. Each division
  raises \<^verbatim>\<open>ZeroDivisionError\<close> on a zero divisor; the first line of output with the
  latency is printed before the throughput is computed. The result is the pair
  (latency, throughput) that the last two lines report.
\<close>

definition evaluation_harness ::
  "args \<Rightarrow> 'r list \<Rightarrow> 'y \<Rightarrow> (int \<Rightarrow> real) \<Rightarrow>
   ('r list, 'y) event list \<times> (error + real \<times> real)" where
  "evaluation_harness a test_data test_label dur =
     (case iteration_count a (length test_data) of
        Inl e \<Rightarrow> ([Print ''## Evaluate Start:''], Inl e)
      | Inr n \<Rightarrow>
          let s = harness_loop a test_data test_label n dur (py_range (epochs a))
                    \<lparr>total_time = 0, total_sample = 0, out = [Print ''## Evaluate Start:'']\<rparr>
          in if total_sample s = 0 then (out s, Inl ZeroDivisionError)
             else let latency = total_time s / real_of_int (total_sample s) * 1000
               in if total_time s = 0 then (out s @ [Print_value latency], Inl ZeroDivisionError)
                  else let throughput = real_of_int (total_sample s) / total_time s
                    in (out s @ [Print_value latency, Print_latency latency,
                                 Print_throughput throughput],
                        Inr (latency, throughput)))"

text \<open>
  The repetitions whose duration and sample count enter the totals: those that pass the
  guard \<^verbatim>\<open>if i > args.num_warmup\<close>.
\<close>

definition included_repetitions :: "args \<Rightarrow> int list" where
  "included_repetitions a = filter (\<lambda>i. i > num_warmup a) (py_range (epochs a))"

text \<open>The events that report an aggregate value (the last three \<^verbatim>\<open>print\<close> calls).\<close>

primrec is_report :: "('x, 'y) event \<Rightarrow> bool" where
  "is_report (Fit x y vx vy n) = False"
| "is_report (Set_global_policy p) = False"
| "is_report (Print s) = False"
| "is_report Profiler_start = False"
| "is_report Profiler_stop = False"
| "is_report (Evaluate x y n b) = False"
| "is_report (Print_iteration i d) = False"
| "is_report (Print_value v) = True"
| "is_report (Print_latency v) = True"
| "is_report (Print_throughput v) = True"

section \<open>Data preparation and the control flow of \<^verbatim>\<open>main\<close>\<close>

subsection \<open>\<^verbatim>\<open>data_preparation\<close>\<close>

text \<open>
  A data frame is the list of its rows, each with its index label. The frames are read
  with \<^verbatim>\<open>index_col=None\<close>, so the label of a row is its position. A line of the
  census file has the two label columns and the other columns, whose type \<open>'c\<close> is left
  open.
\<close>

type_synonym 'a frame = "(nat \<times> 'a) list"

record 'c raw_row =
  income_50k :: string
  marital_stat :: string
  other_columns :: 'c

text \<open>
  \<^verbatim>\<open>pd.read_csv(path, nrows=n)\<close>: the first \<open>n\<close> lines of the file. The file system is a
  map from paths to the lines of each file.
\<close>

definition read_csv :: "(string \<rightharpoonup> 'r list) \<Rightarrow> string \<Rightarrow> nat \<Rightarrow> error + 'r frame" where
  "read_csv fs path nrows =
     (case fs path of
        None \<Rightarrow> Inl FileNotFoundError
      | Some rows \<Rightarrow> Inr (enumerate 0 (take nrows rows)))"

text \<open>\<^verbatim>\<open>to_categorical(v.astype(int), num_classes=2)\<close> of a Boolean column.\<close>

definition to_categorical :: "bool list \<Rightarrow> real list list" where
  "to_categorical bs = map (\<lambda>b. if b then [0, 1] else [1, 0]) bs"

text \<open>
  \<^verbatim>\<open>df.sample(frac=0.5, replace=False, random_state=SEED).index\<close> draws
  \<^verbatim>\<open>round(0.5 * len(df))\<close> distinct rows (\<^verbatim>\<open>round\<close> takes a half to the even
  neighbour). The order in which the generator arranges the rows is a parameter: the
  rows sorted by an arbitrary key \<open>rnd\<close>, which covers every arrangement.
\<close>

definition sample_size :: "nat \<Rightarrow> nat" where
  "sample_size n =
     (if even n then n div 2 else if even (n div 2) then n div 2 else n div 2 + 1)"

definition sample_index :: "(nat \<Rightarrow> nat) \<Rightarrow> nat \<Rightarrow> nat list" where
  "sample_index rnd n = take (sample_size n) (sort_key rnd [0..<n])"

text \<open>Selection of rows by position: \<^verbatim>\<open>df.iloc[idx]\<close> and \<^verbatim>\<open>array[idx]\<close>.\<close>

definition iloc :: "'a list \<Rightarrow> nat list \<Rightarrow> 'a list" where
  "iloc rows idx = map (\<lambda>i. rows ! i) idx"

text \<open>
  \<^verbatim>\<open>pd.get_dummies(df.drop(label_columns, axis=1), columns=categorical_columns)\<close>
  keeps the rows and their labels; the encoding of a row depends on the values present
  in the frame, so the parameter \<open>encode\<close> takes the column values of the whole frame
  and those of the row.
\<close>

definition get_dummies :: "('c list \<Rightarrow> 'c \<Rightarrow> 'f) \<Rightarrow> 'c raw_row frame \<Rightarrow> 'f frame" where
  "get_dummies encode df =
     map (\<lambda>(i, r). (i, encode (map (other_columns \<circ> snd) df) (other_columns r))) df"

record 'f prepared =
  train_data :: "'f frame"
  train_label :: "real list list list"
  validation_data :: "'f frame"
  validation_label :: "real list list list"
  test_data :: "'f frame"
  test_label :: "real list list list"
  output_info :: "(nat \<times> string) list"

text \<open>
  Both frames are read from \<^verbatim>\<open>data/census-income.test.gz\<close> with \<^verbatim>\<open>nrows=90\<close>.
  The parameter \<open>fill\<close> is the assignment of the constant column to the other frame.
  The label lists follow the sorted keys \<^verbatim>\<open>income\<close>, \<^verbatim>\<open>marital\<close>. The test indices
  are a set difference turned into a list; its order is taken to be ascending.
\<close>

definition data_preparation ::
  "(string \<rightharpoonup> 'c raw_row list) \<Rightarrow> ('c list \<Rightarrow> 'c \<Rightarrow> 'f) \<Rightarrow> ('f \<Rightarrow> 'f) \<Rightarrow> (nat \<Rightarrow> nat) \<Rightarrow>
   error + 'f prepared" where
  "data_preparation fs encode fill rnd =
     (case read_csv fs ''data/census-income.test.gz'' 90 of
        Inl e \<Rightarrow> Inl e
      | Inr train_df \<Rightarrow>
     (case read_csv fs ''data/census-income.test.gz'' 90 of
        Inl e \<Rightarrow> Inl e
      | Inr other_df \<Rightarrow>
        let transformed_train = get_dummies encode train_df;
            transformed_other = map (\<lambda>(i, r). (i, fill r)) (get_dummies encode other_df);
            train_income =
              to_categorical (map (\<lambda>(i, r). income_50k r = '' 50000+.'') train_df);
            train_marital =
              to_categorical (map (\<lambda>(i, r). marital_stat r = '' Never married'') train_df);
            other_income =
              to_categorical (map (\<lambda>(i, r). income_50k r = '' 50000+.'') other_df);
            other_marital =
              to_categorical (map (\<lambda>(i, r). marital_stat r = '' Never married'') other_df);
            validation_indices = sample_index rnd (length transformed_other);
            test_indices =
              filter (\<lambda>i. i \<notin> set validation_indices) (map fst transformed_other)
        in Inr \<lparr>train_data = transformed_train,
                train_label = [train_income, train_marital],
                validation_data = iloc transformed_other validation_indices,
                validation_label =
                  [iloc other_income validation_indices, iloc other_marital validation_indices],
                test_data = iloc transformed_other test_indices,
                test_label = [iloc other_income test_indices, iloc other_marital test_indices],
                output_info = [(2, ''income''), (2, ''marital'')]\<rparr>))"

subsection \<open>\<^verbatim>\<open>main\<close>\<close>

text \<open>
  The calls that \<^verbatim>\<open>main\<close> makes on the compiled model, in order: \<^verbatim>\<open>fit\<close> under
  \<^verbatim>\<open>--train\<close>, the precision policy, and the evaluation harness when
  \<^verbatim>\<open>args.evaluate\<close> is true as a Python value, that is, a non-empty string. The
  construction of the network is modelled on its own below; the prints of the
  arguments, of the shapes and of the summary are not recorded.
\<close>

definition main ::
  "args \<Rightarrow> (string \<rightharpoonup> 'c raw_row list) \<Rightarrow> ('c list \<Rightarrow> 'c \<Rightarrow> 'f) \<Rightarrow> ('f \<Rightarrow> 'f) \<Rightarrow> (nat \<Rightarrow> nat) \<Rightarrow>
   (int \<Rightarrow> real) \<Rightarrow> ('f frame, real list list list) event list \<times> (error + unit)" where
  "main a fs encode fill rnd dur =
     (case data_preparation fs encode fill rnd of
        Inl e \<Rightarrow> ([], Inl e)
      | Inr d \<Rightarrow>
        let fitted =
              (if train a
               then [Fit (validation_data d) (validation_label d)
                         (validation_data d) (validation_label d) 1]
               else []);
            policy =
              (if precision a = ''float16'' then [Set_global_policy ''mixed_float16''] else [])
        in if evaluate a \<noteq> []
           then (let (reported, r) = evaluation_harness a (test_data d) (test_label d) dur
                 in (fitted @ policy @ reported,
                     case r of Inl e \<Rightarrow> Inl e | Inr latency_throughput \<Rightarrow> Inr ()))
           else (fitted @ policy, Inr ()))"

primrec is_fit :: "('x, 'y) event \<Rightarrow> bool" where
  "is_fit (Fit x y vx vy n) = True"
| "is_fit (Set_global_policy p) = False"
| "is_fit (Print s) = False"
| "is_fit Profiler_start = False"
| "is_fit Profiler_stop = False"
| "is_fit (Evaluate x y n b) = False"
| "is_fit (Print_iteration i d) = False"
| "is_fit (Print_value v) = False"
| "is_fit (Print_latency v) = False"
| "is_fit (Print_throughput v) = False"

primrec is_evaluate :: "('x, 'y) event \<Rightarrow> bool" where
  "is_evaluate (Fit x y vx vy n) = False"
| "is_evaluate (Set_global_policy p) = False"
| "is_evaluate (Print s) = False"
| "is_evaluate Profiler_start = False"
| "is_evaluate Profiler_stop = False"
| "is_evaluate (Evaluate x y n b) = True"
| "is_evaluate (Print_iteration i d) = False"
| "is_evaluate (Print_value v) = False"
| "is_evaluate (Print_latency v) = False"
| "is_evaluate (Print_throughput v) = False"

text \<open>A census file of four lines, used for the concrete runs below.\<close>

definition census4 :: "string \<rightharpoonup> nat raw_row list" where
  "census4 = [''data/census-income.test.gz'' \<mapsto>
     [\<lparr>income_50k = '' 50000+.'', marital_stat = '' Never married'', other_columns = 10\<rparr>,
      \<lparr>income_50k = '' - 50000.'', marital_stat = '' Divorced'', other_columns = 11\<rparr>,
      \<lparr>income_50k = '' - 50000.'', marital_stat = '' Never married'', other_columns = 12\<rparr>,
      \<lparr>income_50k = '' 50000+.'', marital_stat = '' Widowed'', other_columns = 13\<rparr>]]"

section \<open>The ROC-AUC callback\<close>

text \<open>
  Indexing a list raises \<^verbatim>\<open>IndexError\<close> out of range. \<open>bind_err\<close> sequences two
  computations that can raise: the second runs only when the first returned.
\<close>

definition py_index :: "'a list \<Rightarrow> nat \<Rightarrow> error + 'a" where
  "py_index xs i = (if i < length xs then Inr (xs ! i) else Inl IndexError)"

definition bind_err :: "error + 'a \<Rightarrow> ('a \<Rightarrow> error + 'b) \<Rightarrow> error + 'b" where
  "bind_err r f = (case r of Inl e \<Rightarrow> Inl e | Inr v \<Rightarrow> f v)"

text \<open>The fields set by \<^verbatim>\<open>ROCCallback.__init__\<close> from the three (data, labels) pairs.\<close>

record ('x, 'y) ROCCallback =
  train_X :: 'x
  train_Y :: "'y list"
  validation_X :: 'x
  validation_Y :: "'y list"
  test_X :: 'x
  test_Y :: "'y list"

definition ROCCallback_init ::
  "'x \<times> 'y list \<Rightarrow> 'x \<times> 'y list \<Rightarrow> 'x \<times> 'y list \<Rightarrow> ('x, 'y) ROCCallback" where
  "ROCCallback_init training validation test =
     \<lparr>train_X = fst training, train_Y = snd training,
      validation_X = fst validation, validation_Y = snd validation,
      test_X = fst test, test_Y = snd test\<rparr>"

text \<open>
  A printed line: the output name and the three scores (the source rounds each to four
  decimals for printing; the line keeps the score itself).
\<close>

datatype roc_line = ROC_line string real real real

text \<open>
  The body of the loop of \<^verbatim>\<open>on_epoch_end\<close> for one task: the three calls of the
  metric, of the training, the validation and the test split in this order, then the
  line. The metric \<^verbatim>\<open>roc_auc_score\<close> of scikit-learn is a parameter \<open>metric\<close>; nothing
  catches what it raises.
\<close>

definition task_report ::
  "('y \<Rightarrow> 'p \<Rightarrow> error + real) \<Rightarrow> ('x, 'y) ROCCallback \<Rightarrow> 'p list \<Rightarrow> 'p list \<Rightarrow> 'p list \<Rightarrow>
   nat \<Rightarrow> string \<Rightarrow> error + roc_line" where
  "task_report metric self train_prediction validation_prediction test_prediction
      index output_name =
     bind_err (py_index (train_Y self) index) (\<lambda>y_train.
     bind_err (py_index train_prediction index) (\<lambda>p_train.
     bind_err (metric y_train p_train) (\<lambda>train_roc_auc.
     bind_err (py_index (validation_Y self) index) (\<lambda>y_validation.
     bind_err (py_index validation_prediction index) (\<lambda>p_validation.
     bind_err (metric y_validation p_validation) (\<lambda>validation_roc_auc.
     bind_err (py_index (test_Y self) index) (\<lambda>y_test.
     bind_err (py_index test_prediction index) (\<lambda>p_test.
     bind_err (metric y_test p_test) (\<lambda>test_roc_auc.
       Inr (ROC_line output_name train_roc_auc validation_roc_auc test_roc_auc))))))))))"

text \<open>
  The loop \<^verbatim>\<open>for index, output_name in enumerate(self.model.output_names)\<close>. The lines
  printed so far are kept when an exception leaves the loop.
\<close>

fun report_loop ::
  "(nat \<Rightarrow> string \<Rightarrow> error + roc_line) \<Rightarrow> (nat \<times> string) list \<Rightarrow> roc_line list \<Rightarrow>
   roc_line list \<times> (error + unit)" where
  "report_loop report [] printed = (printed, Inr ())"
| "report_loop report ((index, output_name) # rest) printed =
     (case report index output_name of
        Inl e \<Rightarrow> (printed, Inl e)
      | Inr line \<Rightarrow> report_loop report rest (printed @ [line]))"

text \<open>
  \<^verbatim>\<open>on_epoch_end\<close>: the three predictions of the model (\<^verbatim>\<open>self.model.predict\<close>, a
  parameter returning one prediction per task), then the loop over the output names.
\<close>

definition on_epoch_end ::
  "('x, 'y) ROCCallback \<Rightarrow> ('x \<Rightarrow> 'p list) \<Rightarrow> string list \<Rightarrow> ('y \<Rightarrow> 'p \<Rightarrow> error + real) \<Rightarrow>
   roc_line list \<times> (error + unit)" where
  "on_epoch_end self self_model_predict output_names metric =
     (let train_prediction = self_model_predict (train_X self);
          validation_prediction = self_model_predict (validation_X self);
          test_prediction = self_model_predict (test_X self)
      in report_loop
           (task_report metric self train_prediction validation_prediction test_prediction)
           (enumerate 0 output_names) [])"

subsection \<open>A concrete metric and two concrete callbacks\<close>

text \<open>
  For the concrete runs, the metric is the area under the ROC curve as scikit-learn
  computes it for a label matrix of two indicator columns: per column, the share of
  (positive, negative) pairs that the scores order correctly, ties counting one half,
  and \<^verbatim>\<open>ValueError\<close> when the column holds a single class; then the mean of the two
  columns.
\<close>

definition binary_roc_auc :: "real list \<Rightarrow> real list \<Rightarrow> error + real" where
  "binary_roc_auc y_true y_score =
     (let pos = map snd (filter (\<lambda>(t, s). t = 1) (zip y_true y_score));
          neg = map snd (filter (\<lambda>(t, s). t \<noteq> 1) (zip y_true y_score))
      in if pos = [] \<or> neg = [] then Inl ValueError
         else Inr ((\<Sum>p\<leftarrow>pos. \<Sum>q\<leftarrow>neg. if q < p then 1 else if q = p then 1 / 2 else 0)
                    / (real (length pos) * real (length neg))))"

definition column :: "nat \<Rightarrow> real list list \<Rightarrow> real list" where
  "column c m = map (\<lambda>row. row ! c) m"

definition roc_auc_score :: "real list list \<Rightarrow> real list list \<Rightarrow> error + real" where
  "roc_auc_score y_true y_score =
     bind_err (binary_roc_auc (column 0 y_true) (column 0 y_score)) (\<lambda>auc0.
     bind_err (binary_roc_auc (column 1 y_true) (column 1 y_score)) (\<lambda>auc1.
       Inr ((auc0 + auc1) / 2)))"

text \<open>
  Two tasks, two examples per split. In \<open>income_single_class\<close> the training labels of the
  first task are all positive; in \<open>marital_single_class\<close> the test labels of the second
  task are. Every other label column has both classes.
\<close>

definition income_single_class :: "(unit, real list list) ROCCallback" where
  "income_single_class = ROCCallback_init
     ((), [[[0, 1], [0, 1]], [[0, 1], [1, 0]]])
     ((), [[[0, 1], [1, 0]], [[0, 1], [1, 0]]])
     ((), [[[0, 1], [1, 0]], [[0, 1], [1, 0]]])"

definition marital_single_class :: "(unit, real list list) ROCCallback" where
  "marital_single_class = ROCCallback_init
     ((), [[[0, 1], [1, 0]], [[0, 1], [1, 0]]])
     ((), [[[0, 1], [1, 0]], [[0, 1], [1, 0]]])
     ((), [[[0, 1], [1, 0]], [[0, 1], [0, 1]]])"

definition two_predictions :: "unit \<Rightarrow> real list list list" where
  "two_predictions x =
     [[[1 / 5, 4 / 5], [3 / 5, 2 / 5]], [[3 / 10, 7 / 10], [9 / 10, 1 / 10]]]"

section \<open>The network built by \<^verbatim>\<open>main\<close>\<close>

text \<open>
  Vectors and matrices of exact reals; a batch is the list of its rows. The layers of
  Keras are modelled by what they compute.
\<close>

type_synonym vec = "real list"
type_synonym mat = "real list list"

datatype activation = Linear | Relu | Softmax

definition softmax :: "vec \<Rightarrow> vec" where
  "softmax z = map (\<lambda>x. exp x / (\<Sum>y\<leftarrow>z. exp y)) z"

primrec activate :: "activation \<Rightarrow> vec \<Rightarrow> vec" where
  "activate Linear z = z"
| "activate Relu z = map (max 0) z"
| "activate Softmax z = softmax z"

text \<open>
  A dense layer applied to an input of a given width: \<^verbatim>\<open>Dense(units, activation)(input)\<close>
  creates a kernel with one row per input column and one column per unit. The entries
  of kernel and bias are arbitrary, given as functions of their indices, so that a
  layer stands for every value its parameters can take, before or after training.
\<close>

record dense =
  in_dim :: nat
  units :: nat
  kernel :: "nat \<Rightarrow> nat \<Rightarrow> real"
  bias :: "nat \<Rightarrow> real"
  activation :: activation

definition Dense ::
  "nat \<Rightarrow> activation \<Rightarrow> nat \<Rightarrow> (nat \<Rightarrow> nat \<Rightarrow> real) \<Rightarrow> (nat \<Rightarrow> real) \<Rightarrow> dense" where
  "Dense n act width k b = \<lparr>in_dim = width, units = n, kernel = k, bias = b, activation = act\<rparr>"

text \<open>The layer on one example: the affine map, then the activation.\<close>

definition dense_call :: "dense \<Rightarrow> vec \<Rightarrow> vec" where
  "dense_call l x =
     activate (activation l)
       (map (\<lambda>j. (\<Sum>i\<leftarrow>[0..<in_dim l]. x ! i * kernel l i j) + bias l j) [0..<units l])"

text \<open>The layer on a batch; a row of another width than the layer was built for is an error.\<close>

definition dense_batch :: "dense \<Rightarrow> mat \<Rightarrow> error + mat" where
  "dense_batch l X =
     (if list_all (\<lambda>x. length x = in_dim l) X then Inr (map (dense_call l) X)
      else Inl ShapeMismatch)"

primrec sequence_err :: "(error + 'a) list \<Rightarrow> error + 'a list" where
  "sequence_err [] = Inr []"
| "sequence_err (r # rs) =
     bind_err r (\<lambda>v. bind_err (sequence_err rs) (\<lambda>vs. Inr (v # vs)))"

text \<open>The parameters of all layers: per expert, per gate and per tower.\<close>

record weights =
  expert_kernel :: "nat \<Rightarrow> nat \<Rightarrow> nat \<Rightarrow> real"
  expert_bias :: "nat \<Rightarrow> nat \<Rightarrow> real"
  gate_kernel :: "nat \<Rightarrow> nat \<Rightarrow> nat \<Rightarrow> real"
  gate_bias :: "nat \<Rightarrow> nat \<Rightarrow> real"
  tower_kernel :: "nat \<Rightarrow> nat \<Rightarrow> nat \<Rightarrow> real"
  tower_bias :: "nat \<Rightarrow> nat \<Rightarrow> real"
  output_kernel :: "nat \<Rightarrow> nat \<Rightarrow> nat \<Rightarrow> real"
  output_bias :: "nat \<Rightarrow> nat \<Rightarrow> real"

definition zero_weights :: weights where
  "zero_weights =
     \<lparr>expert_kernel = (\<lambda>e i j. 0), expert_bias = (\<lambda>e j. 0),
      gate_kernel = (\<lambda>t i j. 0), gate_bias = (\<lambda>t j. 0),
      tower_kernel = (\<lambda>t i j. 0), tower_bias = (\<lambda>t j. 0),
      output_kernel = (\<lambda>t i j. 0), output_bias = (\<lambda>t j. 0)\<rparr>"

subsection \<open>The MMoE layer\<close>

text \<open>
  Modelled from the spec: the class \<^verbatim>\<open>MMoE\<close> of the module \<^verbatim>\<open>mmoe\<close>, which
  \<^verbatim>\<open>main\<close> imports and which is not among the sources. An MMoE layer holds a bank of
  experts, each an independent dense projection of the shared input to the embedding
  width, and one gate per task, a dense projection of the same input to one logit per
  expert followed by softmax. The activation of the experts is a configuration choice.
\<close>

record mmoe =
  embedding_width :: nat
  experts :: "dense list"
  gates :: "dense list"

definition MMoE :: "nat \<Rightarrow> nat \<Rightarrow> nat \<Rightarrow> activation \<Rightarrow> nat \<Rightarrow> weights \<Rightarrow> mmoe" where
  "MMoE n num_experts num_tasks expert_activation width w =
     \<lparr>embedding_width = n,
      experts = map (\<lambda>e. Dense n expert_activation width (expert_kernel w e) (expert_bias w e))
                  [0..<num_experts],
      gates = map (\<lambda>t. Dense num_experts Softmax width (gate_kernel w t) (gate_bias w t))
                [0..<num_tasks]\<rparr>"

text \<open>
  Modelled from the spec: the Expert Bank of \<^verbatim>\<open>mmoe\<close>. Given a feature matrix of shape
  (batch, F) it produces one embedding matrix of shape (batch, U) per expert, and fails
  with ShapeMismatch when the input width is not the configured one.
\<close>

definition expert_bank :: "mmoe \<Rightarrow> mat \<Rightarrow> error + mat list" where
  "expert_bank m X = sequence_err (map (\<lambda>e. dense_batch e X) (experts m))"

text \<open>
  Modelled from the spec: the Gating Network of \<^verbatim>\<open>mmoe\<close>. For one task it produces a
  (batch, num_experts) matrix, by an affine projection to one logit per expert followed
  by softmax along the expert dimension, and fails with ShapeMismatch on a dimension
  mismatch.
\<close>

definition gating_network :: "dense \<Rightarrow> mat \<Rightarrow> error + mat" where
  "gating_network g X = dense_batch g X"

text \<open>
  Modelled from the spec: the Mixture Combiner of \<^verbatim>\<open>mmoe\<close>. For each example the
  mixed embedding is the sum over the experts of the gate weight times the embedding
  of the expert, with no renormalisation.
\<close>

definition mixture_combiner :: "nat \<Rightarrow> mat list \<Rightarrow> mat \<Rightarrow> mat" where
  "mixture_combiner width embeddings gate =
     map (\<lambda>b. map (\<lambda>u. \<Sum>e\<leftarrow>[0..<length embeddings]. gate ! b ! e * embeddings ! e ! b ! u)
                [0..<width])
       [0..<length gate]"

text \<open>
  Modelled from the spec: the forward pass of the \<^verbatim>\<open>MMoE\<close> layer of \<^verbatim>\<open>mmoe\<close>. The
  experts are computed once and reused by every task; the result is one mixed
  embedding matrix per task.
\<close>

definition mmoe_call :: "mmoe \<Rightarrow> mat \<Rightarrow> error + mat list" where
  "mmoe_call m X =
     bind_err (expert_bank m X) (\<lambda>embeddings.
       sequence_err
         (map (\<lambda>g. bind_err (gating_network g X)
                      (\<lambda>gate. Inr (mixture_combiner (embedding_width m) embeddings gate)))
            (gates m)))"

subsection \<open>Towers and the model (lines 199 to 224 of \<^verbatim>\<open>main\<close>)\<close>

record tower =
  tower_layer :: dense
  output_layer :: dense
  name :: string

record model =
  input_width :: nat
  mmoe_layers :: mmoe
  output_layers :: "tower list"

text \<open>
  The body of \<^verbatim>\<open>for index, task_layer in enumerate(mmoe_layers)\<close>: a hidden layer of 8
  units with ReLU on the task's mixed embedding, then the output layer with softmax,
  whose size and name are \<^verbatim>\<open>output_info[index]\<close>.
\<close>

definition build_tower :: "(nat \<times> string) list \<Rightarrow> weights \<Rightarrow> nat \<Rightarrow> nat \<Rightarrow> error + tower" where
  "build_tower info w width index =
     bind_err (py_index info index) (\<lambda>(n, output_name).
       Inr \<lparr>tower_layer = Dense 8 Relu width (tower_kernel w index) (tower_bias w index),
            output_layer = Dense n Softmax 8 (output_kernel w index) (output_bias w index),
            name = output_name\<rparr>)"

text \<open>
  The input layer of width \<^verbatim>\<open>num_features\<close>, \<^verbatim>\<open>MMoE(units=4, num_experts=8, num_tasks=2)\<close>
  on it, and one tower per output of the MMoE layer.
\<close>

definition build_model ::
  "nat \<Rightarrow> (nat \<times> string) list \<Rightarrow> activation \<Rightarrow> weights \<Rightarrow> error + model" where
  "build_model num_features info expert_activation w =
     (let layer = MMoE 4 8 2 expert_activation num_features w
      in bind_err
           (sequence_err
              (map (build_tower info w (embedding_width layer)) [0..<length (gates layer)]))
           (\<lambda>towers.
              Inr \<lparr>input_width = num_features, mmoe_layers = layer, output_layers = towers\<rparr>))"

definition tower_call :: "tower \<Rightarrow> mat \<Rightarrow> error + mat" where
  "tower_call t task_layer =
     bind_err (dense_batch (tower_layer t) task_layer) (dense_batch (output_layer t))"

text \<open>
  \<^verbatim>\<open>model.predict\<close> on a feature batch: one prediction matrix per output. A batch whose
  rows do not have the width of the input layer is rejected.
\<close>

definition model_predict :: "model \<Rightarrow> mat \<Rightarrow> error + mat list" where
  "model_predict m X =
     (if list_all (\<lambda>x. length x = input_width m) X
      then bind_err (mmoe_call (mmoe_layers m) X) (\<lambda>task_layers.
             sequence_err (map (\<lambda>(t, task_layer). tower_call t task_layer)
                             (zip (output_layers m) task_layers)))
      else Inl ShapeMismatch)"

section \<open>Properties of the evaluation harness\<close>

subsection \<open>The totals kept by the loop\<close>

lemma loop_total_time:
  "total_time (harness_loop a X Y n dur js s) =
     total_time s + (\<Sum>i\<leftarrow>filter (\<lambda>i. i > num_warmup a) js. dur i)"
  by (induction js arbitrary: s) (simp_all add: repetition_def Let_def)

lemma loop_total_sample:
  "total_sample (harness_loop a X Y n dur js s) =
     total_sample s + (\<Sum>i\<leftarrow>filter (\<lambda>i. i > num_warmup a) js. n * batch_size a)"
  by (induction js arbitrary: s) (simp_all add: repetition_def Let_def)

lemma loop_out_report:
  "filter is_report (out (harness_loop a X Y n dur js s)) = filter is_report (out s)"
  by (induction js arbitrary: s) (simp_all add: repetition_def Let_def)

lemma py_range_5: "py_range 5 = [0, 1, 2, 3, 4]"
  by (simp add: py_range_def upt_rec)

lemma included_empty: "epochs a \<le> num_warmup a + 1 \<Longrightarrow> included_repetitions a = []"
  by (auto simp: included_repetitions_def py_range_def filter_empty_conv)

lemma included_length_sample:
  "total_sample (harness_loop a X Y n dur (py_range (epochs a))
      \<lparr>total_time = 0, total_sample = 0, out = ev\<rparr>) =
   int (length (included_repetitions a)) * (n * batch_size a)"
  by (simp add: loop_total_sample included_repetitions_def sum_list_triv)

subsection \<open>Aggregate latency and throughput\<close>

text \<open>
  Claim C1. For warm-up count \<open>w\<close> and \<open>e\<close> epochs, the repetitions that enter the
  aggregate are exactly those of \<open>0, \<dots>, e - 1\<close> whose index is not \<open>\<le> w\<close>. With \<open>T\<close>
  the sum of their durations and \<open>S\<close> the sum of their sample counts (iteration count
  times batch size each), the harness reports the latency \<open>T / S * 1000\<close> and the
  throughput \<open>S / T\<close>; it raises \<^verbatim>\<open>ZeroDivisionError\<close> when \<open>S\<close> or \<open>T\<close> is zero.
  Durations are exact reals here.
\<close>

theorem harness_aggregate_statistics:
  assumes "iteration_count a (length X) = Inr n"
  shows "evaluation_harness a X Y dur =
     (let included = filter (\<lambda>i. \<not> i \<le> num_warmup a) (py_range (epochs a));
          T = (\<Sum>i\<leftarrow>included. dur i);
          S = (\<Sum>i\<leftarrow>included. n * batch_size a);
          pre = out (harness_loop a X Y n dur (py_range (epochs a))
                  \<lparr>total_time = 0, total_sample = 0, out = [Print ''## Evaluate Start:'']\<rparr>)
      in if S = 0 then (pre, Inl ZeroDivisionError)
         else if T = 0 then (pre @ [Print_value 0], Inl ZeroDivisionError)
         else (pre @ [Print_value (T / real_of_int S * 1000),
                      Print_latency (T / real_of_int S * 1000),
                      Print_throughput (real_of_int S / T)],
               Inr (T / real_of_int S * 1000, real_of_int S / T)))"
  using assms
  by (simp add: evaluation_harness_def Let_def loop_total_time loop_total_sample not_le)

theorem harness_aggregate_statistics_witness:
  "iteration_count (default_args\<lparr>epochs := 5, batch_size := 10\<rparr>)
     (length (replicate 100 ())) = Inr 10 \<and>
   snd (evaluation_harness (default_args\<lparr>epochs := 5, batch_size := 10\<rparr>)
          (replicate 100 ()) () (\<lambda>i. 2)) = Inr (20, 50)"
proof -
  let ?a = "default_args\<lparr>epochs := 5, batch_size := 10\<rparr>"
  have n: "iteration_count ?a (length (replicate 100 ())) = Inr 10"
    by (simp add: iteration_count_def default_args_def py_int_def)
  have e: "epochs ?a = 5" "num_warmup ?a = 3" "batch_size ?a = 10"
    by (simp_all add: default_args_def)
  show ?thesis
    using n harness_aggregate_statistics [OF n, of "()" "\<lambda>i. 2"]
    by (simp add: e py_range_5 Let_def)
qed

subsection \<open>Five epochs, three warm-up repetitions\<close>

text \<open>
  Claim C2, as stated: with \<open>epochs = 5\<close> and \<open>num_warmup = 3\<close> exactly two repetitions
  contribute to the aggregate. The guard \<^verbatim>\<open>i > args.num_warmup\<close> lets only index 4 pass,
  so the number of contributing repetitions is not two.
\<close>

theorem two_repetitions_counterexample:
  "\<not> length (included_repetitions (default_args\<lparr>epochs := 5, num_warmup := 3\<rparr>)) = 2"
  by (simp add: included_repetitions_def py_range_5)

text \<open>
  Claim C2, amended: with \<open>epochs = 5\<close> and \<open>num_warmup = 3\<close> exactly one repetition, the
  one of index 4, contributes to the aggregate: the loop ends with its duration as the
  total time and its sample count as the total sample count.
\<close>

theorem five_epochs_three_warmup:
  "epochs a = 5 \<Longrightarrow> num_warmup a = 3 \<Longrightarrow>
   included_repetitions a = [4] \<and>
   total_time (harness_loop a X Y n dur (py_range (epochs a))
      \<lparr>total_time = 0, total_sample = 0, out = ev\<rparr>) = dur 4 \<and>
   total_sample (harness_loop a X Y n dur (py_range (epochs a))
      \<lparr>total_time = 0, total_sample = 0, out = ev\<rparr>) = n * batch_size a"
  unfolding loop_total_time loop_total_sample
  by (simp add: included_repetitions_def py_range_5)

theorem five_epochs_three_warmup_witness:
  "epochs (default_args\<lparr>epochs := 5\<rparr>) = 5 \<and> num_warmup (default_args\<lparr>epochs := 5\<rparr>) = 3 \<and>
   included_repetitions (default_args\<lparr>epochs := 5\<rparr>) = [4]"
proof -
  have e: "epochs (default_args\<lparr>epochs := 5\<rparr>) = 5"
    by simp
  have w: "num_warmup (default_args\<lparr>epochs := 5\<rparr>) = 3"
    by (simp add: default_args_def)
  from five_epochs_three_warmup [OF e w]
  have "included_repetitions (default_args\<lparr>epochs := 5\<rparr>) = [4]"
    by (rule conjunct1)
  with e w show ?thesis by simp
qed

subsection \<open>The iteration count\<close>

text \<open>
  Claim C3. For a positive batch size, the iteration count of every repetition is the
  minimum of the iteration cap \<^verbatim>\<open>--num_iter\<close> and the floor of the dataset size divided
  by the batch size. The witness is the instance of the claim: 100 rows, batch size 10
  and cap 200 give 10 iterations.
\<close>

theorem iteration_count_min_floor:
  "0 < batch_size a \<Longrightarrow>
   iteration_count a len = Inr (min (num_iter a) \<lfloor>real len / real_of_int (batch_size a)\<rfloor>)"
  by (simp add: iteration_count_def py_int_def min.commute)

theorem iteration_count_min_floor_witness:
  "0 < batch_size (default_args\<lparr>batch_size := 10, num_iter := 200\<rparr>) \<and>
   iteration_count (default_args\<lparr>batch_size := 10, num_iter := 200\<rparr>) 100 = Inr 10"
  using iteration_count_min_floor [of "default_args\<lparr>batch_size := 10, num_iter := 200\<rparr>" 100]
  by (simp add: default_args_def)

subsection \<open>Warm-up count not below the epoch count\<close>

text \<open>
  Claim C4. When the warm-up count is at least the epoch count, no repetition enters
  the aggregate and the harness fails: the division by the total sample count raises
  \<^verbatim>\<open>ZeroDivisionError\<close> (the exception that stands for DegenerateAggregate), and no
  latency or throughput value has been printed.
\<close>

theorem warmup_consumes_all_repetitions:
  assumes "epochs a \<le> num_warmup a"
  shows "included_repetitions a = [] \<and>
         snd (evaluation_harness a X Y dur) = Inl ZeroDivisionError \<and>
         filter is_report (fst (evaluation_harness a X Y dur)) = []"
proof -
  have inc: "included_repetitions a = []"
    using assms by (simp add: included_empty)
  have samp: "total_sample (harness_loop a X Y n dur (py_range (epochs a))
      \<lparr>total_time = 0, total_sample = 0, out = ev\<rparr>) = 0" for n ev
    by (simp add: included_length_sample inc)
  show ?thesis
  proof (cases "iteration_count a (length X)")
    case (Inl e)
    then have "e = ZeroDivisionError"
      by (simp add: iteration_count_def split: if_splits)
    with Inl show ?thesis
      by (simp add: inc evaluation_harness_def)
  next
    case (Inr n)
    then show ?thesis
      by (simp add: inc evaluation_harness_def samp loop_out_report)
  qed
qed

theorem warmup_consumes_all_repetitions_witness:
  "epochs (default_args\<lparr>epochs := 3\<rparr>) \<le> num_warmup (default_args\<lparr>epochs := 3\<rparr>) \<and>
   snd (evaluation_harness (default_args\<lparr>epochs := 3\<rparr>) [(), ()] () (\<lambda>i. 1))
     = Inl ZeroDivisionError"
  using warmup_consumes_all_repetitions
          [of "default_args\<lparr>epochs := 3\<rparr>" "[(), ()]" "()" "\<lambda>i. 1"]
  by (simp add: default_args_def)

section \<open>Properties of data preparation and of the control flow\<close>

subsection \<open>Row labels through the preparation\<close>

lemma read_csv_index: "read_csv fs path k = Inr df \<Longrightarrow> map fst df = [0..<length df]"
  by (auto simp: read_csv_def split: option.splits)

lemma get_dummies_index: "map fst (get_dummies encode df) = map fst df"
  by (simp add: get_dummies_def case_prod_unfold comp_def)

lemma get_dummies_length: "length (get_dummies encode df) = length df"
  by (simp add: get_dummies_def)

lemma fill_index: "map fst (map (\<lambda>(i, r). (i, f r)) df) = map fst df"
  by (simp add: case_prod_unfold comp_def)

lemma sample_index_set: "set (sample_index rnd n) \<subseteq> {..<n}"
proof -
  have "set (sample_index rnd n) \<subseteq> set (sort_key rnd [0..<n])"
    unfolding sample_index_def by (rule set_take_subset)
  then show ?thesis by auto
qed

lemma iloc_index:
  assumes ix: "map fst rows = [0..<length rows]" and sub: "set idx \<subseteq> {..<length rows}"
  shows "map fst (iloc rows idx) = idx"
proof -
  have "fst (rows ! i) = i" if "i < length rows" for i
  proof -
    from that have "fst (rows ! i) = map fst rows ! i" by simp
    also have "\<dots> = i" using that by (simp add: ix)
    finally show ?thesis .
  qed
  with sub have "map (\<lambda>i. fst (rows ! i)) idx = map (\<lambda>i. i) idx"
    by (intro map_cong) auto
  then show ?thesis by (simp add: iloc_def comp_def)
qed

lemma iloc_map: "set idx \<subseteq> {..<length rows} \<Longrightarrow> iloc (map f rows) idx = map f (iloc rows idx)"
  by (auto simp: iloc_def)

subsection \<open>The trace of \<^verbatim>\<open>main\<close>\<close>

lemma loop_out_fit:
  "filter is_fit (out (harness_loop a X Y n dur js s)) = filter is_fit (out s)"
  by (induction js arbitrary: s) (simp_all add: repetition_def Let_def)

lemma harness_no_fit: "filter is_fit (fst (evaluation_harness a X Y dur)) = []"
  by (simp add: evaluation_harness_def Let_def loop_out_fit split: sum.split)

lemma loop_out_evaluate:
  "length (filter is_evaluate (out (harness_loop a X Y n dur js s))) =
     length (filter is_evaluate (out s)) + length js"
  by (induction js arbitrary: s) (simp_all add: repetition_def Let_def)

lemma harness_evaluate_count:
  "length (filter is_evaluate (fst (evaluation_harness a X Y dur))) =
     (if batch_size a = 0 then 0 else nat (epochs a))"
  by (simp add: evaluation_harness_def iteration_count_def Let_def loop_out_evaluate py_range_def)

lemma loop_out_start:
  "Print ''## Evaluate Start:'' \<in> set (out s) \<Longrightarrow>
   Print ''## Evaluate Start:'' \<in> set (out (harness_loop a X Y n dur js s))"
  by (induction js arbitrary: s) (simp_all add: repetition_def Let_def)

lemma harness_start: "Print ''## Evaluate Start:'' \<in> set (fst (evaluation_harness a X Y dur))"
  by (simp add: evaluation_harness_def Let_def loop_out_start split: sum.split)

lemma main_trace:
  "data_preparation fs encode fill rnd = Inr d \<Longrightarrow>
   fst (main a fs encode fill rnd dur) =
     (if train a
      then [Fit (validation_data d) (validation_label d) (validation_data d) (validation_label d) 1]
      else []) @
     (if precision a = ''float16'' then [Set_global_policy ''mixed_float16''] else []) @
     (if evaluate a \<noteq> [] then fst (evaluation_harness a (test_data d) (test_label d) dur)
      else [])"
  by (simp add: main_def Let_def case_prod_unfold)

subsection \<open>A run on the file of four lines\<close>

lemma sample_index_id_4: "sample_index id (Suc (Suc (Suc (Suc 0)))) = [0, Suc 0]"
  by (simp add: sample_index_def sample_size_def upt_rec)

lemma prepared_census4:
  "data_preparation census4 (\<lambda>df c. c) id id =
   Inr \<lparr>train_data = [(0, 10), (1, 11), (2, 12), (3, 13)],
        train_label = [[[0, 1], [1, 0], [1, 0], [0, 1]], [[0, 1], [1, 0], [0, 1], [1, 0]]],
        validation_data = [(0, 10), (1, 11)],
        validation_label = [[[0, 1], [1, 0]], [[0, 1], [1, 0]]],
        test_data = [(2, 12), (3, 13)],
        test_label = [[[1, 0], [0, 1]], [[0, 1], [1, 0]]],
        output_info = [(2, ''income''), (2, ''marital'')]\<rparr>"
  by (simp add: data_preparation_def read_csv_def census4_def enumerate_eq_zip upt_rec Let_def
      get_dummies_def to_categorical_def sample_index_id_4 iloc_def)

subsection \<open>The three splits and the input of training\<close>

text \<open>
  Claim C6, as stated: training, validation and test are three disjoint data sets and
  the training operation fits the model on the training split. On the file of four
  lines the training frame holds the rows 0 to 3, the validation split the rows 0 and 1
  of the same file, and \<^verbatim>\<open>fit\<close> receives the validation split as \<open>x\<close> and \<open>y\<close>:
  the input of training is not the training frame, and the two share rows.
\<close>

theorem fit_on_training_split_counterexample:
  "fst (main (default_args\<lparr>train := True, evaluate := []\<rparr>) census4 (\<lambda>df c. c) id id (\<lambda>i. 1)) =
     [Fit [(0, 10), (1, 11)] [[[0, 1], [1, 0]], [[0, 1], [1, 0]]]
          [(0, 10), (1, 11)] [[[0, 1], [1, 0]], [[0, 1], [1, 0]]] 1] \<and>
   map_sum id train_data (data_preparation census4 (\<lambda>df c. c) id id) =
     Inr [(0, 10), (1, 11), (2, 12), (3, 13)] \<and>
   map_sum id validation_data (data_preparation census4 (\<lambda>df c. c) id id) =
     Inr [(0, 10), (1, 11)] \<and>
   [(0, 10), (1, 11)] \<noteq> [(0 :: nat, 10 :: nat), (1, 11), (2, 12), (3, 13)] \<and>
   set [(0 :: nat, 10 :: nat), (1, 11)] \<inter> set [(0, 10), (1, 11), (2, 12), (3, 13)] \<noteq> {}"
  by (simp add: main_trace [OF prepared_census4] prepared_census4 default_args_def)

text \<open>
  Claim C6, amended: the validation and the test split are disjoint by row label and
  together cover the rows that were read; the training frame is read from the same
  file and the same rows as the frame that is split, so that every validation and test
  row is a training row, and the validation rows and labels are the training rows and
  labels at the validation indices (with the constant column filled in). Under
  \<^verbatim>\<open>--train\<close> the model is fitted once, on the validation split, which is passed as
  the validation data as well.
\<close>

theorem fit_uses_validation_split:
  assumes "data_preparation fs encode fill rnd = Inr d"
  shows "set (map fst (validation_data d)) \<inter> set (map fst (test_data d)) = {} \<and>
         set (map fst (validation_data d)) \<union> set (map fst (test_data d))
           = set (map fst (train_data d)) \<and>
         validation_data d =
           map (\<lambda>(i, r). (i, fill r)) (iloc (train_data d) (map fst (validation_data d))) \<and>
         validation_label d =
           map (\<lambda>labels. iloc labels (map fst (validation_data d))) (train_label d) \<and>
         (train a \<longrightarrow>
            filter is_fit (fst (main a fs encode fill rnd dur)) =
              [Fit (validation_data d) (validation_label d)
                   (validation_data d) (validation_label d) 1])"
proof -
  from assms obtain df where df: "read_csv fs ''data/census-income.test.gz'' 90 = Inr df"
    by (auto simp: data_preparation_def split: sum.splits)
  define other where "other = map (\<lambda>(i, r). (i, fill r)) (get_dummies encode df)"
  define vi where "vi = sample_index rnd (length other)"
  define ti where "ti = filter (\<lambda>i. i \<notin> set vi) (map fst other)"
  have len: "length other = length df"
    by (simp add: other_def get_dummies_length)
  have "map fst other = map fst df"
    unfolding other_def by (simp only: fill_index get_dummies_index)
  with read_csv_index [OF df] len have oix: "map fst other = [0..<length other]"
    by simp
  have vsub: "set vi \<subseteq> {..<length other}"
    unfolding vi_def by (rule sample_index_set)
  have tsub: "set ti \<subseteq> {..<length other}"
    by (auto simp: ti_def oix)
  have d: "train_data d = get_dummies encode df"
     "validation_data d = iloc other vi" "test_data d = iloc other ti"
     "validation_label d =
        [iloc (to_categorical (map (\<lambda>(i, r). income_50k r = '' 50000+.'') df)) vi,
         iloc (to_categorical (map (\<lambda>(i, r). marital_stat r = '' Never married'') df)) vi]"
     "train_label d =
        [to_categorical (map (\<lambda>(i, r). income_50k r = '' 50000+.'') df),
         to_categorical (map (\<lambda>(i, r). marital_stat r = '' Never married'') df)]"
    using assms df
    by (auto simp: data_preparation_def Let_def other_def vi_def ti_def)
  have v: "map fst (validation_data d) = vi"
    by (simp add: d iloc_index [OF oix vsub])
  have t: "map fst (test_data d) = ti"
    by (simp add: d iloc_index [OF oix tsub])
  have 1: "set (map fst (validation_data d)) \<inter> set (map fst (test_data d)) = {}"
    unfolding v t by (auto simp: ti_def)
  have 2: "set (map fst (validation_data d)) \<union> set (map fst (test_data d))
             = set (map fst (train_data d))"
    unfolding v t using vsub
    by (auto simp: ti_def oix d get_dummies_index read_csv_index [OF df] len)
  have 3: "validation_data d =
             map (\<lambda>(i, r). (i, fill r)) (iloc (train_data d) (map fst (validation_data d)))"
    unfolding v using vsub
    by (simp add: d other_def iloc_map len [unfolded other_def])
  have 4: "validation_label d =
             map (\<lambda>labels. iloc labels (map fst (validation_data d))) (train_label d)"
    unfolding v by (simp add: d)
  have 5: "train a \<longrightarrow>
            filter is_fit (fst (main a fs encode fill rnd dur)) =
              [Fit (validation_data d) (validation_label d)
                   (validation_data d) (validation_label d) 1]"
    by (simp add: main_trace [OF assms] harness_no_fit)
  from 1 2 3 4 5 show ?thesis by blast
qed

theorem fit_uses_validation_split_witness:
  "data_preparation census4 (\<lambda>df c. c) id id =
     Inr \<lparr>train_data = [(0, 10), (1, 11), (2, 12), (3, 13)],
          train_label = [[[0, 1], [1, 0], [1, 0], [0, 1]], [[0, 1], [1, 0], [0, 1], [1, 0]]],
          validation_data = [(0, 10), (1, 11)],
          validation_label = [[[0, 1], [1, 0]], [[0, 1], [1, 0]]],
          test_data = [(2, 12), (3, 13)],
          test_label = [[[1, 0], [0, 1]], [[0, 1], [1, 0]]],
          output_info = [(2, ''income''), (2, ''marital'')]\<rparr> \<and>
   train (default_args\<lparr>train := True\<rparr>) \<and>
   filter is_fit
     (fst (main (default_args\<lparr>train := True\<rparr>) census4 (\<lambda>df c. c) id id (\<lambda>i. 1))) =
     [Fit [(0, 10), (1, 11)] [[[0, 1], [1, 0]], [[0, 1], [1, 0]]]
          [(0, 10), (1, 11)] [[[0, 1], [1, 0]], [[0, 1], [1, 0]]] 1]"
  using fit_uses_validation_split
          [OF prepared_census4, of "default_args\<lparr>train := True\<rparr>" "\<lambda>i. 1"]
  by (simp add: prepared_census4)

subsection \<open>The option \<^verbatim>\<open>--epochs\<close>\<close>

text \<open>
  Claim C9. The value of \<^verbatim>\<open>--epochs\<close> does not reach training: under \<^verbatim>\<open>--train\<close>
  there is exactly one call of \<^verbatim>\<open>fit\<close>, with \<^verbatim>\<open>epochs=1\<close>, whatever value \<open>e\<close> the
  option has. The option sets the number of timed repetitions of the harness: when the
  harness runs (and the batch size is not zero) \<^verbatim>\<open>evaluate\<close> is called \<open>e\<close> times.
  Inside the harness the value also selects the repetition, of index \<open>e div 2\<close>, that is
  profiled under \<^verbatim>\<open>--tensorboard\<close>.
\<close>

theorem epochs_only_set_repetitions:
  assumes "data_preparation fs encode fill rnd = Inr d" and "train a"
  shows "filter is_fit (fst (main (a\<lparr>epochs := e\<rparr>) fs encode fill rnd dur)) =
           [Fit (validation_data d) (validation_label d)
                (validation_data d) (validation_label d) 1] \<and>
         (evaluate a \<noteq> [] \<longrightarrow> batch_size a \<noteq> 0 \<longrightarrow>
            length (filter is_evaluate (fst (main (a\<lparr>epochs := e\<rparr>) fs encode fill rnd dur)))
              = nat e)"
  using assms(2)
  by (simp add: main_trace [OF assms(1)] harness_no_fit harness_evaluate_count)

theorem epochs_only_set_repetitions_witness:
  "train (default_args\<lparr>train := True\<rparr>) \<and>
   filter is_fit
     (fst (main (default_args\<lparr>train := True, epochs := 7\<rparr>) census4 (\<lambda>df c. c) id id (\<lambda>i. 1))) =
     [Fit [(0, 10), (1, 11)] [[[0, 1], [1, 0]], [[0, 1], [1, 0]]]
          [(0, 10), (1, 11)] [[[0, 1], [1, 0]], [[0, 1], [1, 0]]] 1] \<and>
   length (filter is_evaluate
     (fst (main (default_args\<lparr>train := True, epochs := 7\<rparr>) census4 (\<lambda>df c. c) id id (\<lambda>i. 1))))
     = 7"
proof -
  have t: "train (default_args\<lparr>train := True\<rparr>)"
    by simp
  show ?thesis
    using epochs_only_set_repetitions [OF prepared_census4 t, of 7 "\<lambda>i. 1"]
    by (simp add: default_args_def)
qed

subsection \<open>The option \<^verbatim>\<open>--evaluate\<close>\<close>

text \<open>
  Claim C10. The option \<^verbatim>\<open>--evaluate\<close> is a string with default \<^verbatim>\<open>True\<close>, tested for
  truthiness only: the harness runs (it prints its start line) exactly when the string
  is not empty, and with the empty string no call of \<^verbatim>\<open>evaluate\<close> is made. The
  witness runs the harness for \<^verbatim>\<open>False\<close> and for \<^verbatim>\<open>0\<close>.
\<close>

theorem evaluate_option_truthiness:
  assumes "data_preparation fs encode fill rnd = Inr d"
  shows "evaluate default_args = ''True'' \<and>
         (Print ''## Evaluate Start:'' \<in> set (fst (main a fs encode fill rnd dur))
            \<longleftrightarrow> evaluate a \<noteq> []) \<and>
         (evaluate a = [] \<longrightarrow> filter is_evaluate (fst (main a fs encode fill rnd dur)) = [])"
  by (auto simp: main_trace [OF assms] harness_start default_args_def)

theorem evaluate_option_truthiness_witness:
  "Print ''## Evaluate Start:'' \<in>
     set (fst (main (default_args\<lparr>evaluate := ''False''\<rparr>) census4 (\<lambda>df c. c) id id (\<lambda>i. 1))) \<and>
   Print ''## Evaluate Start:'' \<in>
     set (fst (main (default_args\<lparr>evaluate := ''0''\<rparr>) census4 (\<lambda>df c. c) id id (\<lambda>i. 1))) \<and>
   filter is_evaluate
     (fst (main (default_args\<lparr>evaluate := []\<rparr>) census4 (\<lambda>df c. c) id id (\<lambda>i. 1))) = []"
  using evaluate_option_truthiness
          [OF prepared_census4, of "default_args\<lparr>evaluate := ''False''\<rparr>" "\<lambda>i. 1"]
        evaluate_option_truthiness
          [OF prepared_census4, of "default_args\<lparr>evaluate := ''0''\<rparr>" "\<lambda>i. 1"]
        evaluate_option_truthiness
          [OF prepared_census4, of "default_args\<lparr>evaluate := []\<rparr>" "\<lambda>i. 1"]
  by simp

section \<open>Properties of the ROC-AUC callback\<close>

lemma report_loop_first_failure:
  "k < length names \<Longrightarrow> (\<forall>j<k. \<exists>line. report (n + j) (names ! j) = Inr line) \<Longrightarrow>
   report (n + k) (names ! k) = Inl e \<Longrightarrow>
   report_loop report (enumerate n names) printed =
     (printed @ map (\<lambda>j. projr (report (n + j) (names ! j))) [0..<k], Inl e)"
proof (induction names arbitrary: n k printed)
  case Nil
  then show ?case by simp
next
  case (Cons x xs)
  show ?case
  proof (cases k)
    case 0
    with Cons.prems show ?thesis by simp
  next
    case (Suc k')
    with Cons.prems obtain line where line: "report n x = Inr line"
      by fastforce
    have a: "k' < length xs"
      using Cons.prems Suc by simp
    have b: "\<forall>j<k'. \<exists>line. report (Suc n + j) (xs ! j) = Inr line"
    proof (intro allI impI)
      fix j assume "j < k'"
      then have "Suc j < k" by (simp add: Suc)
      with Cons.prems(2) have "\<exists>line. report (n + Suc j) ((x # xs) ! Suc j) = Inr line"
        by blast
      then show "\<exists>line. report (Suc n + j) (xs ! j) = Inr line" by simp
    qed
    have c: "report (Suc n + k') (xs ! k') = Inl e"
      using Cons.prems(3) Suc by simp
    have "[0..<k] = 0 # map Suc [0..<k']"
      by (simp add: Suc upt_conv_Cons map_Suc_upt del: upt_Suc)
    then show ?thesis
      using Cons.IH [OF a b c, of "printed @ [line]"] line
      by (simp add: comp_def)
  qed
qed

lemma income_train_undefined:
  "task_report roc_auc_score income_single_class
     (two_predictions ()) (two_predictions ()) (two_predictions ()) 0 ''income''
     = Inl ValueError"
  by (simp add: task_report_def income_single_class_def ROCCallback_init_def two_predictions_def
      py_index_def bind_err_def roc_auc_score_def binary_roc_auc_def column_def)

lemma marital_defined:
  "task_report roc_auc_score income_single_class
     (two_predictions ()) (two_predictions ()) (two_predictions ()) 1 ''marital''
     = Inr (ROC_line ''marital'' 1 1 1)"
  by (simp add: task_report_def income_single_class_def ROCCallback_init_def two_predictions_def
      py_index_def bind_err_def roc_auc_score_def binary_roc_auc_def column_def)

lemma income_defined:
  "task_report roc_auc_score marital_single_class
     (two_predictions ()) (two_predictions ()) (two_predictions ()) 0 ''income''
     = Inr (ROC_line ''income'' 1 1 1)"
  by (simp add: task_report_def marital_single_class_def ROCCallback_init_def two_predictions_def
      py_index_def bind_err_def roc_auc_score_def binary_roc_auc_def column_def)

lemma marital_test_undefined:
  "task_report roc_auc_score marital_single_class
     (two_predictions ()) (two_predictions ()) (two_predictions ()) 1 ''marital''
     = Inl ValueError"
  by (simp add: task_report_def marital_single_class_def ROCCallback_init_def two_predictions_def
      py_index_def bind_err_def roc_auc_score_def binary_roc_auc_def column_def)

text \<open>
  Claim C5, as stated: when the labels of one task on one split hold a single class, the
  failure is reported for that task and split only and the scores of the other tasks
  and splits of the call are still computed and reported. In the run below the
  training labels of \<^verbatim>\<open>income\<close> hold one class; every score of \<^verbatim>\<open>marital\<close> is
  defined, and yet the call ends with the exception and has printed no line.
\<close>

theorem single_class_task_counterexample:
  "on_epoch_end income_single_class two_predictions [''income'', ''marital''] roc_auc_score
     = ([], Inl ValueError) \<and>
   task_report roc_auc_score income_single_class
     (two_predictions ()) (two_predictions ()) (two_predictions ()) 1 ''marital''
     = Inr (ROC_line ''marital'' 1 1 1)"
proof
  show "on_epoch_end income_single_class two_predictions [''income'', ''marital''] roc_auc_score
     = ([], Inl ValueError)"
    by (simp add: on_epoch_end_def enumerate_eq_zip upt_rec income_train_undefined)
  show "task_report roc_auc_score income_single_class
     (two_predictions ()) (two_predictions ()) (two_predictions ()) 1 ''marital''
     = Inr (ROC_line ''marital'' 1 1 1)"
    by (rule marital_defined)
qed

text \<open>
  Claim C5, amended: when the score of some task on some split is undefined, the call
  ends with that exception at the first such task in the order of the outputs (within
  a task: training, then validation, then test). The lines of the tasks before it have
  been printed; no line is printed for that task or for any task after it.
\<close>

theorem on_epoch_end_aborts_at_first_failure:
  assumes "k < length output_names"
    and "\<forall>j<k. \<exists>line.
           task_report metric self (self_model_predict (train_X self))
             (self_model_predict (validation_X self)) (self_model_predict (test_X self))
             j (output_names ! j) = Inr line"
    and "task_report metric self (self_model_predict (train_X self))
           (self_model_predict (validation_X self)) (self_model_predict (test_X self))
           k (output_names ! k) = Inl e"
  shows "on_epoch_end self self_model_predict output_names metric =
           (map (\<lambda>j. projr (task_report metric self (self_model_predict (train_X self))
                         (self_model_predict (validation_X self)) (self_model_predict (test_X self))
                         j (output_names ! j))) [0..<k],
            Inl e)"
  using report_loop_first_failure [where n = 0 and printed = "[]", OF assms(1)] assms(2,3)
  by (simp add: on_epoch_end_def Let_def)

theorem on_epoch_end_aborts_at_first_failure_witness:
  "(1::nat) < length [''income'', ''marital''] \<and>
   on_epoch_end marital_single_class two_predictions [''income'', ''marital''] roc_auc_score
     = ([ROC_line ''income'' 1 1 1], Inl ValueError)"
proof -
  have k: "(1::nat) < length [''income'', ''marital'']"
    by simp
  have before: "\<forall>j<1. \<exists>line.
      task_report roc_auc_score marital_single_class
        (two_predictions (train_X marital_single_class))
        (two_predictions (validation_X marital_single_class))
        (two_predictions (test_X marital_single_class))
        j ([''income'', ''marital''] ! j) = Inr line"
    using income_defined by simp
  have at: "task_report roc_auc_score marital_single_class
        (two_predictions (train_X marital_single_class))
        (two_predictions (validation_X marital_single_class))
        (two_predictions (test_X marital_single_class))
        1 ([''income'', ''marital''] ! 1) = Inl ValueError"
    using marital_test_undefined by simp
  show ?thesis
    using on_epoch_end_aborts_at_first_failure [OF k before at] income_defined
    by (simp add: upt_rec)
qed

section \<open>Properties of the network\<close>

subsection \<open>Softmax and the shapes of the layers\<close>

lemma sum_list_divide: "(\<Sum>x\<leftarrow>xs. f x / c) = (\<Sum>x\<leftarrow>xs. f x) / (c::real)"
  by (induction xs) (simp_all add: add_divide_distrib)

lemma sum_exp_pos: "z \<noteq> [] \<Longrightarrow> 0 < (\<Sum>y\<leftarrow>z. exp (y::real))"
proof (cases z)
  case Nil
  assume "z \<noteq> []"
  with Nil show ?thesis by simp
next
  case (Cons x xs)
  have "0 \<le> (\<Sum>y\<leftarrow>xs. exp y)"
    by (rule sum_list_nonneg) auto
  then have "0 < exp x + (\<Sum>y\<leftarrow>xs. exp y)"
    by (intro add_pos_nonneg) simp_all
  with Cons show ?thesis by simp
qed

lemma softmax_sum: "z \<noteq> [] \<Longrightarrow> sum_list (softmax z) = 1"
  using sum_exp_pos [of z] by (simp add: softmax_def sum_list_divide)

lemma softmax_nonneg: "p \<in> set (softmax z) \<Longrightarrow> 0 \<le> p"
proof -
  assume "p \<in> set (softmax z)"
  then obtain x where "x \<in> set z" and p: "p = exp x / (\<Sum>y\<leftarrow>z. exp y)"
    by (auto simp: softmax_def)
  then have "z \<noteq> []" by auto
  then have "0 < (\<Sum>y\<leftarrow>z. exp y)" by (rule sum_exp_pos)
  with p show ?thesis by simp
qed

lemma length_softmax: "length (softmax z) = length z"
  by (simp add: softmax_def)

lemma length_activate: "length (activate act z) = length z"
  by (cases act) (simp_all add: length_softmax)

lemma length_dense_call: "length (dense_call l x) = units l"
  by (simp add: dense_call_def length_activate)

lemma dense_call_softmax_sum:
  "activation l = Softmax \<Longrightarrow> 0 < units l \<Longrightarrow> sum_list (dense_call l x) = 1"
  by (simp add: dense_call_def softmax_sum)

lemma dense_call_softmax_nonneg:
  "activation l = Softmax \<Longrightarrow> p \<in> set (dense_call l x) \<Longrightarrow> 0 \<le> p"
  by (simp add: dense_call_def softmax_nonneg)

lemma sequence_err_map_Inr:
  "sequence_err (map (\<lambda>x. Inr (f x)) xs) = Inr (map f xs)"
  by (induction xs) (simp_all add: bind_err_def)

lemma dense_batch_Inr:
  "list_all (\<lambda>x. length x = in_dim l) X \<Longrightarrow> dense_batch l X = Inr (map (dense_call l) X)"
  by (simp add: dense_batch_def)

lemma mixture_combiner_length: "length (mixture_combiner n es G) = length G"
  by (simp add: mixture_combiner_def)

lemma mixture_combiner_row:
  "row \<in> set (mixture_combiner n es G) \<Longrightarrow> length row = n"
  by (auto simp: mixture_combiner_def)

lemma expert_bank_MMoE:
  assumes "list_all (\<lambda>x. length x = F) X"
  shows "expert_bank (MMoE n E T act F w) X =
           Inr (map (\<lambda>e. map (dense_call (Dense n act F (expert_kernel w e) (expert_bias w e))) X)
                  [0..<E])"
proof -
  have "dense_batch (Dense n act F k b) X = Inr (map (dense_call (Dense n act F k b)) X)" for k b
    using assms by (simp add: dense_batch_Inr Dense_def)
  then show ?thesis
    by (simp add: expert_bank_def MMoE_def comp_def sequence_err_map_Inr)
qed

lemma mmoe_call_MMoE:
  assumes "list_all (\<lambda>x. length x = F) X"
  shows "mmoe_call (MMoE n E T act F w) X =
           Inr (map (\<lambda>t. mixture_combiner n
                     (map (\<lambda>e. map (dense_call (Dense n act F (expert_kernel w e) (expert_bias w e))) X)
                        [0..<E])
                     (map (dense_call (Dense E Softmax F (gate_kernel w t) (gate_bias w t))) X))
                  [0..<T])"
proof -
  have g: "gating_network (Dense E Softmax F k b) X
             = Inr (map (dense_call (Dense E Softmax F k b)) X)" for k b
    using assms by (simp add: gating_network_def dense_batch_Inr Dense_def)
  show ?thesis
    unfolding mmoe_call_def expert_bank_MMoE [OF assms]
    by (simp add: bind_err_def MMoE_def comp_def g sequence_err_map_Inr)
qed

lemma tower_call_Inr:
  assumes "list_all (\<lambda>x. length x = in_dim (tower_layer t)) M"
    and "in_dim (output_layer t) = units (tower_layer t)"
  shows "tower_call t M =
           Inr (map (\<lambda>x. dense_call (output_layer t) (dense_call (tower_layer t) x)) M)"
proof -
  have "list_all (\<lambda>x. length x = in_dim (output_layer t)) (map (dense_call (tower_layer t)) M)"
    by (simp add: list_all_iff length_dense_call assms(2))
  then show ?thesis
    by (simp add: tower_call_def dense_batch_Inr [OF assms(1)] bind_err_def dense_batch_Inr comp_def)
qed

lemma build_model_two_tasks:
  "build_model F [(c0, n0), (c1, n1)] act w =
     Inr \<lparr>input_width = F, mmoe_layers = MMoE 4 8 2 act F w,
          output_layers =
            [\<lparr>tower_layer = Dense 8 Relu 4 (tower_kernel w 0) (tower_bias w 0),
              output_layer = Dense c0 Softmax 8 (output_kernel w 0) (output_bias w 0),
              name = n0\<rparr>,
             \<lparr>tower_layer = Dense 8 Relu 4 (tower_kernel w 1) (tower_bias w 1),
              output_layer = Dense c1 Softmax 8 (output_kernel w 1) (output_bias w 1),
              name = n1\<rparr>]\<rparr>"
  by (simp add: build_model_def Let_def MMoE_def build_tower_def py_index_def bind_err_def
      upt_rec [of 0])

subsection \<open>The end-to-end prediction\<close>

lemma model_predict_two_tasks:
  assumes X: "list_all (\<lambda>x. length x = F) X"
    and m: "build_model F [(c0, n0), (c1, n1)] act w = Inr m"
  shows "\<exists>M0 M1. length M0 = length X \<and> length M1 = length X \<and>
           model_predict m X =
             Inr [map (\<lambda>x. dense_call (output_layer (output_layers m ! 0))
                             (dense_call (tower_layer (output_layers m ! 0)) x)) M0,
                  map (\<lambda>x. dense_call (output_layer (output_layers m ! 1))
                             (dense_call (tower_layer (output_layers m ! 1)) x)) M1]"
proof -
  let ?es = "map (\<lambda>e. map (dense_call (Dense 4 act F (expert_kernel w e) (expert_bias w e))) X)
               [0..<8]"
  let ?M = "\<lambda>t. mixture_combiner 4 ?es
               (map (dense_call (Dense 8 Softmax F (gate_kernel w t) (gate_bias w t))) X)"
  let ?t0 = "\<lparr>tower_layer = Dense 8 Relu 4 (tower_kernel w 0) (tower_bias w 0),
              output_layer = Dense c0 Softmax 8 (output_kernel w 0) (output_bias w 0),
              name = n0\<rparr>"
  let ?t1 = "\<lparr>tower_layer = Dense 8 Relu 4 (tower_kernel w 1) (tower_bias w 1),
              output_layer = Dense c1 Softmax 8 (output_kernel w 1) (output_bias w 1),
              name = n1\<rparr>"
  from m have m_eq: "m = \<lparr>input_width = F, mmoe_layers = MMoE 4 8 2 act F w,
                          output_layers = [?t0, ?t1]\<rparr>"
    by (simp add: build_model_two_tasks)
  have two: "[0..<2] = [0, Suc 0]"
    by (simp add: upt_rec [of 0] upt_rec [of 1] upt_rec [of "Suc 0"])
  have mm: "mmoe_call (MMoE 4 8 2 act F w) X = Inr [?M 0, ?M (Suc 0)]"
    unfolding mmoe_call_MMoE [OF X] two by simp
  have rows: "list_all (\<lambda>x. length x = 4) (?M t)" for t
    by (auto simp: list_all_iff dest: mixture_combiner_row)
  have t0: "tower_call ?t0 (?M 0) =
      Inr (map (\<lambda>x. dense_call (output_layer ?t0) (dense_call (tower_layer ?t0) x)) (?M 0))"
  proof (rule tower_call_Inr)
    show "list_all (\<lambda>x. length x = in_dim (tower_layer ?t0)) (?M 0)"
      using rows [of 0] by (simp add: Dense_def)
    show "in_dim (output_layer ?t0) = units (tower_layer ?t0)"
      by (simp add: Dense_def)
  qed
  have t1: "tower_call ?t1 (?M (Suc 0)) =
      Inr (map (\<lambda>x. dense_call (output_layer ?t1) (dense_call (tower_layer ?t1) x)) (?M (Suc 0)))"
  proof (rule tower_call_Inr)
    show "list_all (\<lambda>x. length x = in_dim (tower_layer ?t1)) (?M (Suc 0))"
      using rows [of "Suc 0"] by (simp add: Dense_def)
    show "in_dim (output_layer ?t1) = units (tower_layer ?t1)"
      by (simp add: Dense_def)
  qed
  have "model_predict m X =
          Inr [map (\<lambda>x. dense_call (output_layer ?t0) (dense_call (tower_layer ?t0) x)) (?M 0),
               map (\<lambda>x. dense_call (output_layer ?t1) (dense_call (tower_layer ?t1) x)) (?M (Suc 0))]"
    using X t0 t1 by (simp add: model_predict_def m_eq mm bind_err_def)
  moreover have "length (?M 0) = length X" "length (?M (Suc 0)) = length X"
    by (simp_all add: mixture_combiner_length)
  ultimately show ?thesis
    by (intro exI [of _ "?M 0"] exI [of _ "?M (Suc 0)"]) (simp add: m_eq)
qed

text \<open>
  Claim C7. The model that \<^verbatim>\<open>main\<close> builds (8 experts, embedding width 4, 2 tasks)
  with the output sizes 2 and 2, for any input width \<open>F\<close>, any activation of the experts
  and any values of the parameters, maps a batch of 32 rows of width \<open>F\<close> to exactly two
  prediction matrices, each of 32 rows of length 2 that sum to 1. Sums are those of exact
  reals.
\<close>

theorem end_to_end_prediction:
  assumes "map fst info = [2, 2]" and "length X = 32" and "list_all (\<lambda>x. length x = F) X"
  shows "\<exists>m P0 P1. build_model F info act w = Inr m \<and> model_predict m X = Inr [P0, P1] \<and>
           (\<forall>P\<in>set [P0, P1]. length P = 32 \<and>
              (\<forall>row\<in>set P. length row = 2 \<and> sum_list row = 1))"
proof -
  from assms(1) obtain n0 n1 where info: "info = [(2, n0), (2, n1)]"
    by (auto simp: map_eq_Cons_conv)
  obtain m where m: "build_model F info act w = Inr m"
    by (simp add: info build_model_two_tasks)
  have out: "activation (output_layer (output_layers m ! i)) = Softmax \<and>
             units (output_layer (output_layers m ! i)) = 2" if "i < 2" for i
  proof -
    from that have "i = 0 \<or> i = 1" by auto
    then show ?thesis
      using m by (auto simp: info build_model_two_tasks Dense_def)
  qed
  from model_predict_two_tasks [OF assms(3) m [unfolded info]]
  obtain M0 M1 where len: "length M0 = length X" "length M1 = length X"
    and p: "model_predict m X =
             Inr [map (\<lambda>x. dense_call (output_layer (output_layers m ! 0))
                             (dense_call (tower_layer (output_layers m ! 0)) x)) M0,
                  map (\<lambda>x. dense_call (output_layer (output_layers m ! 1))
                             (dense_call (tower_layer (output_layers m ! 1)) x)) M1]"
    by blast
  have row: "length (dense_call (output_layer (output_layers m ! i)) y) = 2 \<and>
             sum_list (dense_call (output_layer (output_layers m ! i)) y) = 1" if "i < 2" for i y
    using out [OF that] by (simp add: length_dense_call dense_call_softmax_sum)
  show ?thesis
    using m p len assms(2) row [of 0] row [of 1]
    by (intro exI conjI) (assumption, assumption, auto)
qed

theorem end_to_end_prediction_witness:
  "map fst [(2 :: nat, ''income''), (2, ''marital'')] = [2, 2] \<and>
   length (replicate 32 [0 :: real, 0, 0]) = 32 \<and>
   list_all (\<lambda>x. length x = 3) (replicate 32 [0 :: real, 0, 0]) \<and>
   (\<exists>m P0 P1. build_model 3 [(2, ''income''), (2, ''marital'')] Relu zero_weights = Inr m \<and>
      model_predict m (replicate 32 [0, 0, 0]) = Inr [P0, P1] \<and>
      (\<forall>P\<in>set [P0, P1]. length P = 32 \<and> (\<forall>row\<in>set P. length row = 2 \<and> sum_list row = 1)))"
proof -
  have a: "map fst [(2 :: nat, ''income''), (2, ''marital'')] = [2, 2]"
    by simp
  have b: "length (replicate 32 [0 :: real, 0, 0]) = 32"
    by simp
  have c: "list_all (\<lambda>x. length x = 3) (replicate 32 [0 :: real, 0, 0])"
    by (simp add: list_all_iff)
  from end_to_end_prediction [OF a b c, of Relu zero_weights] a b c
  show ?thesis by blast
qed

subsection \<open>The gating network\<close>

lemma gate_of_MMoE:
  "t < T \<Longrightarrow> gates (MMoE n E T act F w) ! t = Dense E Softmax F (gate_kernel w t) (gate_bias w t)"
  by (simp add: MMoE_def)

text \<open>
  Claim C8. For every configuration with at least one expert, every task, all values of
  the parameters and every input batch of the configured width, the gate of the task
  returns one row per example; each row has one entry per expert, no entry is
  negative, and the row sums to 1 within one millionth (in exact reals the sum is 1).
\<close>

theorem gate_rows_are_distributions:
  assumes "0 < num_experts" and "t < num_tasks" and "list_all (\<lambda>x. length x = F) X"
  shows "\<exists>G. gating_network (gates (MMoE n num_experts num_tasks act F w) ! t) X = Inr G \<and>
            length G = length X \<and>
            (\<forall>row\<in>set G. length row = num_experts \<and> (\<forall>p\<in>set row. 0 \<le> p) \<and>
               \<bar>sum_list row - 1\<bar> \<le> 1 / 10 ^ 6)"
proof -
  let ?g = "Dense num_experts Softmax F (gate_kernel w t) (gate_bias w t)"
  have g: "gates (MMoE n num_experts num_tasks act F w) ! t = ?g"
    using assms(2) by (rule gate_of_MMoE)
  have "list_all (\<lambda>x. length x = in_dim ?g) X"
    using assms(3) by (simp add: Dense_def)
  then have G: "gating_network ?g X = Inr (map (dense_call ?g) X)"
    by (simp add: gating_network_def dense_batch_Inr)
  have act: "activation ?g = Softmax" and u: "units ?g = num_experts"
    by (simp_all add: Dense_def)
  have "length (dense_call ?g x) = num_experts \<and> (\<forall>p\<in>set (dense_call ?g x). 0 \<le> p) \<and>
        \<bar>sum_list (dense_call ?g x) - 1\<bar> \<le> 1 / 10 ^ 6" for x
    using assms(1) dense_call_softmax_nonneg [OF act]
    by (simp add: length_dense_call u dense_call_softmax_sum [OF act])
  then show ?thesis
    unfolding g G by auto
qed

theorem gate_rows_are_distributions_witness:
  "(0::nat) < 1 \<and> (0::nat) < 2 \<and> list_all (\<lambda>x. length x = 3) [[1, 2, 3 :: real]] \<and>
   (\<exists>G. gating_network (gates (MMoE 4 1 2 Relu 3 zero_weights) ! 0) [[1, 2, 3]] = Inr G \<and>
      length G = length [[1, 2, 3 :: real]] \<and>
      (\<forall>row\<in>set G. length row = 1 \<and> (\<forall>p\<in>set row. 0 \<le> p) \<and>
         \<bar>sum_list row - 1\<bar> \<le> 1 / 10 ^ 6))"
proof -
  have a: "(0::nat) < 1" and b: "(0::nat) < 2"
    by simp_all
  have c: "list_all (\<lambda>x. length x = 3) [[1, 2, 3 :: real]]"
    by simp
  from gate_rows_are_distributions [OF a b c, of 4 Relu zero_weights] a b c
  show ?thesis by blast
qed

end
